theory Spec2Isabelle
  imports Complex_Main "HOL-Library.Multiset"
begin

section \<open>Signal aggregation (package ml, the aggregator file)\<close>

text \<open>
  Go's \<^verbatim>\<open>float64\<close> is modelled by \<^typ>\<open>real\<close>: comparisons and arithmetic are exact,
  and NaN and the infinities have no counterpart. The string types of the source
  (\<^verbatim>\<open>SignalSource\<close>, \<^verbatim>\<open>ObfuscationType\<close>, \<^verbatim>\<open>EscalationType\<close>, the action, risk level
  and decision path fields) stay strings.
\<close>

type_synonym SignalSource = string
type_synonym ObfuscationType = string
type_synonym EscalationType = string

subsection \<open>Detection signals\<close>

text \<open>
  Modelled from the spec: the declaration of \<^verbatim>\<open>DetectionSignal\<close>, its source constants
  and its helper methods are not among the source files. The spec (section 3) lists the
  fields; \<^verbatim>\<open>metadata\<close> is a key/value bag whose values are booleans, strings or numbers.
\<close>

datatype meta_value = BoolV bool | StringV string | FloatV real

record DetectionSignal =
  Source :: SignalSource
  Score :: real
  Confidence :: real
  Label :: string
  Weight :: real
  Reasons :: "string list"
  ObfuscationTypes :: "ObfuscationType list"
  LatencyMs :: real
  Metadata :: "string \<rightharpoonup> meta_value"

text \<open>Modelled from the spec: the source names \<^verbatim>\<open>heuristic\<close>, \<^verbatim>\<open>bert\<close>, \<^verbatim>\<open>safeguard\<close>, \<^verbatim>\<open>deeper_go\<close>.\<close>

definition SignalSourceHeuristic :: SignalSource where
  "SignalSourceHeuristic = ''heuristic''"

definition SignalSourceBERT :: SignalSource where
  "SignalSourceBERT = ''bert''"

definition SignalSourceSafeguard :: SignalSource where
  "SignalSourceSafeguard = ''safeguard''"

definition SignalSourceDeeperGo :: SignalSource where
  "SignalSourceDeeperGo = ''deeper_go''"

text \<open>
  Modelled from the spec: \<^verbatim>\<open>IsHighConfidence\<close> is \<^verbatim>\<open>confidence >= 0.85\<close> (section 4.6, TIER 1),
  \<^verbatim>\<open>IsLowConfidence\<close> is \<^verbatim>\<open>confidence < 0.70\<close> (section 6, \<^verbatim>\<open>low_confidence\<close>),
  \<^verbatim>\<open>IsSafe\<close> and \<^verbatim>\<open>IsMalicious\<close> test the label against \<^verbatim>\<open>SAFE\<close> and \<^verbatim>\<open>INJECTION\<close>,
  and a signal has obfuscation when it carries at least one obfuscation marker.
\<close>

definition IsHighConfidence :: "DetectionSignal \<Rightarrow> bool" where
  "IsHighConfidence s = (Confidence s \<ge> 0.85)"

definition IsLowConfidence :: "DetectionSignal \<Rightarrow> bool" where
  "IsLowConfidence s = (Confidence s < 0.70)"

definition IsSafe :: "DetectionSignal \<Rightarrow> bool" where
  "IsSafe s = (Label s = ''SAFE'')"

definition IsMalicious :: "DetectionSignal \<Rightarrow> bool" where
  "IsMalicious s = (Label s = ''INJECTION'')"

definition DetectionSignal_HasObfuscation :: "DetectionSignal \<Rightarrow> bool" where
  "DetectionSignal_HasObfuscation s = (ObfuscationTypes s \<noteq> [])"

subsection \<open>Thresholds, results, the aggregator\<close>

record AggregationThresholds =
  FastPathBlock :: real
  FastPathAllow :: real
  BERTEscalation :: real
  SafeguardEscalation :: real
  ObfuscationBoost :: real
  HighConfidenceThreshold :: real
  LowConfidenceThreshold :: real

definition DefaultAggregationThresholds :: AggregationThresholds where
  "DefaultAggregationThresholds =
     \<lparr> FastPathBlock = 0.85,
       FastPathAllow = 0.05,
       BERTEscalation = 0.30,
       SafeguardEscalation = 0.40,
       ObfuscationBoost = 1.3,
       HighConfidenceThreshold = 0.85,
       LowConfidenceThreshold = 0.70 \<rparr>"

text \<open>
  The reason of a result is built with \<^verbatim>\<open>fmt.Sprintf\<close>. The rendering of a
  \<^verbatim>\<open>float64\<close> by \<^verbatim>\<open>%.0f\<close> and \<^verbatim>\<open>%.2f\<close> is not modelled: a formatted text is the list of
  its pieces, a float piece keeping the number and the precision of its verb.
\<close>

datatype piece =
    Str string
  | Fixed nat real
  | Values "string list"

type_synonym formatted = "piece list"

definition EscalationNone :: EscalationType where
  "EscalationNone = ''''"

definition EscalationBERT :: EscalationType where
  "EscalationBERT = ''bert''"

definition EscalationDeeperGo :: EscalationType where
  "EscalationDeeperGo = ''deeper_go''"

definition EscalationSafeguard :: EscalationType where
  "EscalationSafeguard = ''safeguard''"

record AggregatedResult =
  FinalScore :: real
  Action :: string
  RiskLevel :: string
  Reason :: formatted
  DecisionPath :: string
  Signals :: "DetectionSignal list"
  WasDeobfuscated :: bool
  ResultObfuscationTypes :: "ObfuscationType list"
  EscalationNeeded :: EscalationType
  TotalLatencyMs :: real

record SignalAggregator =
  thresholds :: AggregationThresholds
  signals :: "DetectionSignal list"

definition NewSignalAggregator :: SignalAggregator where
  "NewSignalAggregator = \<lparr> thresholds = DefaultAggregationThresholds, signals = [] \<rparr>"

definition NewSignalAggregatorWithThresholds :: "AggregationThresholds \<Rightarrow> SignalAggregator" where
  "NewSignalAggregatorWithThresholds t = \<lparr> thresholds = t, signals = [] \<rparr>"

definition AddSignal :: "SignalAggregator \<Rightarrow> DetectionSignal \<Rightarrow> SignalAggregator" where
  "AddSignal a s = a\<lparr> signals := signals a @ [s] \<rparr>"

text \<open>\<^verbatim>\<open>GetSignal\<close> returns the first signal of the source, or nil.\<close>

definition GetSignal :: "SignalAggregator \<Rightarrow> SignalSource \<Rightarrow> DetectionSignal option" where
  "GetSignal a source = find (\<lambda>s. Source s = source) (signals a)"

definition HasSignal :: "SignalAggregator \<Rightarrow> SignalSource \<Rightarrow> bool" where
  "HasSignal a source = (GetSignal a source \<noteq> None)"

definition HasObfuscation :: "SignalAggregator \<Rightarrow> bool" where
  "HasObfuscation a = list_ex DetectionSignal_HasObfuscation (signals a)"

text \<open>
  \<^verbatim>\<open>GetAllObfuscationTypes\<close>: every type once, in the order of its first occurrence.
  The \<^verbatim>\<open>seen\<close> map of the source holds exactly the elements of \<^verbatim>\<open>types\<close>.
\<close>

fun collect_types :: "ObfuscationType list \<Rightarrow> ObfuscationType list \<Rightarrow> ObfuscationType list" where
  "collect_types types [] = types"
| "collect_types types (t # ts) =
     (if t \<in> set types then collect_types types ts else collect_types (types @ [t]) ts)"

definition GetAllObfuscationTypes :: "SignalAggregator \<Rightarrow> ObfuscationType list" where
  "GetAllObfuscationTypes a = collect_types [] (concat (map ObfuscationTypes (signals a)))"

text \<open>
  \<^verbatim>\<open>calculateWeightedScore\<close>: the loop carries \<^verbatim>\<open>weightedSum\<close> and \<^verbatim>\<open>totalWeight\<close>.
\<close>

definition weighted_step :: "DetectionSignal \<Rightarrow> real \<times> real \<Rightarrow> real \<times> real" where
  "weighted_step s acc =
     (let effectiveWeight = Weight s * Confidence s
      in (fst acc + Score s * effectiveWeight, snd acc + effectiveWeight))"

definition calculateWeightedScore :: "SignalAggregator \<Rightarrow> real" where
  "calculateWeightedScore a =
     (if length (signals a) = 0 then 0.0
      else let acc = fold weighted_step (signals a) (0, 0);
               weightedSum = fst acc;
               totalWeight = snd acc
           in if totalWeight = 0 then 0.0 else weightedSum / totalWeight)"

definition scoreToAction :: "real \<Rightarrow> string" where
  "scoreToAction score =
     (if score \<ge> 0.70 then ''BLOCK''
      else if score \<ge> 0.40 then ''WARN''
      else ''ALLOW'')"

definition scoreToRiskLevel :: "real \<Rightarrow> string" where
  "scoreToRiskLevel score =
     (if score \<ge> 0.90 then ''CRITICAL''
      else if score \<ge> 0.70 then ''HIGH''
      else if score \<ge> 0.50 then ''MEDIUM''
      else if score \<ge> 0.30 then ''LOW''
      else ''MINIMAL'')"

definition abs_f64 :: "real \<Rightarrow> real" where
  "abs_f64 x = (if x < 0 then - x else x)"

text \<open>\<^verbatim>\<open>strings.Join\<close> on formatted texts and on strings.\<close>

fun join_formatted :: "formatted list \<Rightarrow> string \<Rightarrow> formatted" where
  "join_formatted [] sep = []"
| "join_formatted [p] sep = p"
| "join_formatted (p # q # ps) sep = p @ [Str sep] @ join_formatted (q # ps) sep"

fun strings_Join :: "string list \<Rightarrow> string \<Rightarrow> string" where
  "strings_Join [] sep = []"
| "strings_Join [p] sep = p"
| "strings_Join (p # q # ps) sep = p @ sep @ strings_Join (q # ps) sep"

definition reason_part :: "DetectionSignal \<Rightarrow> formatted" where
  "reason_part s =
     [Str (Source s), Str ''='', Fixed 2 (Score s)]
     @ (if Label s \<noteq> '''' then [Str ''('', Str (Label s), Str '')''] else [])
     @ (if IsHighConfidence s then [Str ''[HC]'']
        else if IsLowConfidence s then [Str ''[LC]'']
        else [])"

definition buildAggregationReason :: "SignalAggregator \<Rightarrow> formatted" where
  "buildAggregationReason a =
     (if length (signals a) = 0 then [Str ''No signals'']
      else join_formatted (map reason_part (signals a)) '', '')"

subsection \<open>Escalation predicates\<close>

definition ShouldEscalateToBERT :: "SignalAggregator \<Rightarrow> bool" where
  "ShouldEscalateToBERT a =
     (if HasObfuscation a then True
      else let score = calculateWeightedScore a
           in if score \<ge> BERTEscalation (thresholds a) \<and> score < FastPathBlock (thresholds a)
              then True else False)"

definition ShouldEscalateToSafeguard :: "SignalAggregator \<Rightarrow> bool" where
  "ShouldEscalateToSafeguard a =
     (let bertSignal = GetSignal a SignalSourceBERT;
          heuristicSignal = GetSignal a SignalSourceHeuristic;
          early =
            (case bertSignal of
               None \<Rightarrow> False
             | Some b \<Rightarrow>
                 (case heuristicSignal of
                    None \<Rightarrow> False
                  | Some h \<Rightarrow>
                      if abs_f64 (Score b - Score h) > 0.3 then True
                      else if IsLowConfidence b \<and> HasObfuscation a \<and> IsSafe b then True
                      else False))
      in if early then True
         else let score = calculateWeightedScore a
              in if score \<ge> SafeguardEscalation (thresholds a) \<and> score \<le> 0.70
                 then (case find IsHighConfidence (signals a) of
                         Some s \<Rightarrow> False
                       | None \<Rightarrow> True)
                 else False)"

definition ShouldTriggerDeeperGoAnalysis :: "SignalAggregator \<Rightarrow> bool" where
  "ShouldTriggerDeeperGoAnalysis a =
     (case GetSignal a SignalSourceBERT of
        None \<Rightarrow> False
      | Some b \<Rightarrow>
          if Confidence b < LowConfidenceThreshold (thresholds a) then
            if HasObfuscation a \<and> IsSafe b then True
            else (case GetSignal a SignalSourceHeuristic of
                    None \<Rightarrow> False
                  | Some h \<Rightarrow>
                      if IsMalicious b \<and> Score h < 0.3 then True
                      else if IsSafe b \<and> Score h > 0.4 then True
                      else False)
          else False)"

subsection \<open>Sorting the high-confidence signals\<close>

text \<open>
  \<^verbatim>\<open>sort.Slice\<close> belongs to the Go standard library. On a slice of at most 12 elements
  it runs an insertion sort: element \<^verbatim>\<open>i\<close> is swapped leftwards while
  \<^verbatim>\<open>less(j, j-1)\<close> holds. \<open>insert_left\<close> does one such pass on the prefix kept in
  reverse (its head is the left neighbour of the element on the move), and
  \<open>insertionSort\<close> runs the passes. A longer slice goes through the library's
  pattern-defeating quicksort, which is not part of this repository: it is the argument
  \<open>pdqsort\<close> of \<open>sort_Slice\<close> and of everything that sorts.
\<close>

type_synonym 'a slice_sort = "('a \<Rightarrow> 'a \<Rightarrow> bool) \<Rightarrow> 'a list \<Rightarrow> 'a list"

fun insert_left :: "('a \<Rightarrow> 'a \<Rightarrow> bool) \<Rightarrow> 'a \<Rightarrow> 'a list \<Rightarrow> 'a list" where
  "insert_left lt x [] = [x]"
| "insert_left lt x (y # rs) =
     (if lt x y then y # insert_left lt x rs else x # y # rs)"

definition insertionSort :: "'a slice_sort" where
  "insertionSort lt xs = rev (foldl (\<lambda>rs x. insert_left lt x rs) [] xs)"

definition sort_Slice :: "'a slice_sort \<Rightarrow> ('a \<Rightarrow> 'a \<Rightarrow> bool) \<Rightarrow> 'a list \<Rightarrow> 'a list" where
  "sort_Slice pdqsort lt xs =
     (if length xs \<le> 12 then insertionSort lt xs else pdqsort lt xs)"

text \<open>
  What the library promises of a sort: \<open>ys\<close> holds the elements of \<open>xs\<close>, each as often,
  and no element of \<open>ys\<close> is less than one before it. Nothing is promised on the order of
  elements that compare equal (\<^verbatim>\<open>sort.Slice\<close> is not a stable sort).
\<close>

definition sorted_by :: "('a \<Rightarrow> 'a \<Rightarrow> bool) \<Rightarrow> 'a list \<Rightarrow> 'a list \<Rightarrow> bool" where
  "sorted_by lt xs ys = (mset ys = mset xs \<and> sorted_wrt (\<lambda>p q. \<not> lt q p) ys)"

text \<open>The comparison of TIER 1: higher confidence first.\<close>

abbreviation by_confidence :: "DetectionSignal \<Rightarrow> DetectionSignal \<Rightarrow> bool" where
  "by_confidence x y \<equiv> Confidence x > Confidence y"

subsection \<open>Aggregate\<close>

text \<open>The result as initialised at the top of \<^verbatim>\<open>Aggregate\<close>, with the latency summed.\<close>

definition initial_result :: "SignalAggregator \<Rightarrow> AggregatedResult" where
  "initial_result a =
     \<lparr> FinalScore = 0,
       Action = '''',
       RiskLevel = '''',
       Reason = [],
       DecisionPath = '''',
       Signals = signals a,
       WasDeobfuscated = HasObfuscation a,
       ResultObfuscationTypes = GetAllObfuscationTypes a,
       EscalationNeeded = EscalationNone,
       TotalLatencyMs = fold (\<lambda>s total. total + LatencyMs s) (signals a) 0 \<rparr>"

text \<open>
  Each tier returns \<open>Some\<close> result where the source returns from \<^verbatim>\<open>Aggregate\<close>, and
  \<open>None\<close> where it falls through to the next tier. TIER 1 sorts, so \<open>tier1\<close> and
  \<open>Aggregate\<close> take the library's sort of long slices as their first argument; it is
  called only when more than 12 signals are of high confidence.
\<close>

definition secrets_found :: "DetectionSignal \<Rightarrow> bool" where
  "secrets_found s =
     (case Metadata s ''secrets_found'' of
        Some (BoolV found) \<Rightarrow> found
      | _ \<Rightarrow> False)"

definition tier0_secrets :: "SignalAggregator \<Rightarrow> AggregatedResult \<Rightarrow> AggregatedResult option" where
  "tier0_secrets a result =
     (case find secrets_found (signals a) of
        Some s \<Rightarrow>
          Some (result\<lparr> FinalScore := 1.0,
                        Action := ''BLOCK'',
                        RiskLevel := ''CRITICAL'',
                        Reason := [Str ''Secrets/credentials detected''],
                        DecisionPath := ''TIER_0_SECRETS'' \<rparr>)
      | None \<Rightarrow> None)"

definition tier0_high_score :: "SignalAggregator \<Rightarrow> AggregatedResult \<Rightarrow> AggregatedResult option" where
  "tier0_high_score a result =
     (case find (\<lambda>s. Score s \<ge> 0.95 \<and> IsHighConfidence s) (signals a) of
        Some s \<Rightarrow>
          Some (result\<lparr> FinalScore := Score s,
                        Action := ''BLOCK'',
                        RiskLevel := ''CRITICAL'',
                        Reason := [Str (Source s), Str '': '', Str (strings_Join (Reasons s) ''; '')],
                        DecisionPath := ''TIER_0_HIGH_SCORE_'' @ Source s \<rparr>)
      | None \<Rightarrow> None)"

definition tier1 ::
  "DetectionSignal slice_sort \<Rightarrow> SignalAggregator \<Rightarrow> AggregatedResult \<Rightarrow> AggregatedResult option" where
  "tier1 pdqsort a result =
     (let highConfSignals = filter IsHighConfidence (signals a)
      in if length highConfSignals > 0 then
           (case sort_Slice pdqsort (\<lambda>x y. Confidence x > Confidence y) highConfSignals of
              [] \<Rightarrow> None
            | topSignal # rest \<Rightarrow>
                let firstLabel = Label topSignal;
                    allAgree = list_all (\<lambda>s. Label s = firstLabel) (topSignal # rest)
                in if allAgree then
                     Some (result\<lparr> FinalScore := Score topSignal,
                                   Action := scoreToAction (Score topSignal),
                                   RiskLevel := scoreToRiskLevel (Score topSignal),
                                   Reason := [Str ''High-confidence '', Str (Source topSignal), Str '': '',
                                              Str (Label topSignal), Str '' ('',
                                              Fixed 0 (Confidence topSignal * 100), Str ''%)''],
                                   DecisionPath := ''TIER_1_HIGH_CONFIDENCE_AGREEMENT'' \<rparr>)
                   else None)
         else None)"

definition clamp_one :: "real \<Rightarrow> real" where
  "clamp_one boostedScore = (if boostedScore > 1.0 then 1.0 else boostedScore)"

definition tier2_veto ::
  "SignalAggregator \<Rightarrow> AggregatedResult \<Rightarrow> DetectionSignal \<Rightarrow> DetectionSignal \<Rightarrow> AggregatedResult option" where
  "tier2_veto a result heuristicSignal bertSignal =
     (if IsSafe bertSignal \<and> Confidence bertSignal < HighConfidenceThreshold (thresholds a) then
        let boostedScore = clamp_one (Score heuristicSignal * ObfuscationBoost (thresholds a))
        in if boostedScore \<ge> 0.5 then
             Some (result\<lparr> FinalScore := boostedScore,
                           Action := scoreToAction boostedScore,
                           RiskLevel := scoreToRiskLevel boostedScore,
                           Reason := [Str ''Obfuscation veto: BERT said SAFE ('',
                                      Fixed 0 (Confidence bertSignal * 100), Str ''% conf) but '',
                                      Values (GetAllObfuscationTypes a), Str '' detected''],
                           DecisionPath := ''TIER_2_OBFUSCATION_VETO'',
                           EscalationNeeded := EscalationDeeperGo \<rparr>)
           else None
      else None)"

definition tier2_boost ::
  "SignalAggregator \<Rightarrow> AggregatedResult \<Rightarrow> DetectionSignal \<Rightarrow> DetectionSignal \<Rightarrow> AggregatedResult option" where
  "tier2_boost a result heuristicSignal bertSignal =
     (if IsMalicious bertSignal \<and> Score heuristicSignal \<ge> 0.4 then
        let boostedScore =
              clamp_one ((Score bertSignal + Score heuristicSignal) / 2 * ObfuscationBoost (thresholds a))
        in Some (result\<lparr> FinalScore := boostedScore,
                         Action := scoreToAction boostedScore,
                         RiskLevel := scoreToRiskLevel boostedScore,
                         Reason := [Str ''Obfuscation + agreement: Go='', Fixed 2 (Score heuristicSignal),
                                    Str '', BERT='', Str (Label bertSignal), Str '' ('',
                                    Fixed 0 (Confidence bertSignal * 100), Str ''%)''],
                         DecisionPath := ''TIER_2_OBFUSCATION_BOOST'' \<rparr>)
      else None)"

definition tier2 :: "SignalAggregator \<Rightarrow> AggregatedResult \<Rightarrow> AggregatedResult option" where
  "tier2 a result =
     (if HasObfuscation a then
        (case GetSignal a SignalSourceHeuristic of
           None \<Rightarrow> None
         | Some heuristicSignal \<Rightarrow>
             (case GetSignal a SignalSourceBERT of
                None \<Rightarrow> None
              | Some bertSignal \<Rightarrow>
                  (case tier2_veto a result heuristicSignal bertSignal of
                     Some r \<Rightarrow> Some r
                   | None \<Rightarrow> tier2_boost a result heuristicSignal bertSignal)))
      else None)"

definition tier3 :: "SignalAggregator \<Rightarrow> AggregatedResult \<Rightarrow> AggregatedResult" where
  "tier3 a result =
     (let score0 = calculateWeightedScore a;
          score = (if HasObfuscation a \<and> score0 \<ge> 0.3 \<and> score0 < 0.7
                   then clamp_one (score0 * ObfuscationBoost (thresholds a))
                   else score0);
          result = result\<lparr> FinalScore := score,
                           Action := scoreToAction score,
                           RiskLevel := scoreToRiskLevel score,
                           Reason := buildAggregationReason a,
                           DecisionPath := ''TIER_3_WEIGHTED_AGGREGATION'' \<rparr>
      in if ShouldEscalateToSafeguard a \<and> \<not> HasSignal a SignalSourceSafeguard then
           result\<lparr> EscalationNeeded := EscalationSafeguard \<rparr>
         else if ShouldTriggerDeeperGoAnalysis a \<and> \<not> HasSignal a SignalSourceDeeperGo then
           result\<lparr> EscalationNeeded := EscalationDeeperGo \<rparr>
         else result)"

definition Aggregate :: "DetectionSignal slice_sort \<Rightarrow> SignalAggregator \<Rightarrow> AggregatedResult" where
  "Aggregate pdqsort a =
     (let result = initial_result a
      in case tier0_secrets a result of
           Some r \<Rightarrow> r
         | None \<Rightarrow>
             (case tier0_high_score a result of
                Some r \<Rightarrow> r
              | None \<Rightarrow>
                  (case tier1 pdqsort a result of
                     Some r \<Rightarrow> r
                   | None \<Rightarrow>
                       (case tier2 a result of
                          Some r \<Rightarrow> r
                        | None \<Rightarrow> tier3 a result))))"

text \<open>
  The order of the risk levels, \<^verbatim>\<open>MINIMAL < LOW < MEDIUM < HIGH < CRITICAL\<close>, as the
  specification of the risk table names it.
\<close>

definition risk_rank :: "string \<Rightarrow> nat" where
  "risk_rank r =
     (if r = ''MINIMAL'' then 0
      else if r = ''LOW'' then 1
      else if r = ''MEDIUM'' then 2
      else if r = ''HIGH'' then 3
      else 4)"

section \<open>Benign-pattern discount (the scorer configuration file)\<close>

text \<open>
  A Go \<^verbatim>\<open>map[string]float64\<close> is listed as the pairs its \<^verbatim>\<open>range\<close> loop visits, in
  the order of the visit (which Go leaves unspecified).
\<close>

type_synonym weight_map = "(string \<times> real) list"

record ScorerConfig =
  KeywordWeights :: weight_map
  CryptoPatterns :: weight_map
  ToolPoisonPatterns :: weight_map
  BenignPatterns :: weight_map

text \<open>The global \<^verbatim>\<open>scorerConfig\<close> pointer is an argument; \<open>None\<close> is nil.\<close>

definition GetBenignPatterns :: "ScorerConfig option \<Rightarrow> weight_map" where
  "GetBenignPatterns scorerConfig =
     (case scorerConfig of
        Some c \<Rightarrow> if length (BenignPatterns c) > 0 then BenignPatterns c else []
      | None \<Rightarrow> [])"

definition MaxBenignDiscount :: real where
  "MaxBenignDiscount = - 0.65"

text \<open>
  \<^verbatim>\<open>strings.ToLower\<close> and \<^verbatim>\<open>strings.Contains\<close> of the Go standard library. The case
  folding is modelled on ASCII letters only, byte by byte; the library also folds
  letters outside ASCII.
\<close>

definition lower_byte :: "char \<Rightarrow> char" where
  "lower_byte c =
     (let n = (of_char c :: nat)
      in if 65 \<le> n \<and> n \<le> 90 then char_of (n + 32) else c)"

definition strings_ToLower :: "string \<Rightarrow> string" where
  "strings_ToLower s = map lower_byte s"

fun has_prefix :: "string \<Rightarrow> string \<Rightarrow> bool" where
  "has_prefix s [] = True"
| "has_prefix [] (p # ps) = False"
| "has_prefix (c # cs) (p # ps) = (c = p \<and> has_prefix cs ps)"

fun strings_Contains :: "string \<Rightarrow> string \<Rightarrow> bool" where
  "strings_Contains [] substr = (substr = [])"
| "strings_Contains (c # cs) substr = (has_prefix (c # cs) substr \<or> strings_Contains cs substr)"

definition benign_step ::
  "string \<Rightarrow> string \<times> real \<Rightarrow> real \<times> string list \<Rightarrow> real \<times> string list" where
  "benign_step textLower entry acc =
     (if strings_Contains textLower (strings_ToLower (fst entry))
      then (fst acc + snd entry, snd acc @ [fst entry])
      else acc)"

definition ApplyBenignPatternDiscount :: "ScorerConfig option \<Rightarrow> string \<Rightarrow> real \<times> string list" where
  "ApplyBenignPatternDiscount scorerConfig text =
     (let benignPatterns = GetBenignPatterns scorerConfig
      in if length benignPatterns = 0 then (0, [])
         else let textLower = strings_ToLower text;
                  acc = fold (benign_step textLower) benignPatterns (0.0, []);
                  discount = (if fst acc < MaxBenignDiscount then MaxBenignDiscount else fst acc)
              in (discount, snd acc))"

section \<open>TIS unified category normalizer\<close>

type_synonym TISCategory = string

definition TISCategoryInstructionOverride :: TISCategory where
  "TISCategoryInstructionOverride = ''instruction_override''"

definition TISCategoryJailbreak :: TISCategory where
  "TISCategoryJailbreak = ''jailbreak''"

definition TISCategoryRoleplay :: TISCategory where
  "TISCategoryRoleplay = ''roleplay''"

definition TISCategoryDataExfil :: TISCategory where
  "TISCategoryDataExfil = ''data_exfil''"

definition TISCategoryDataDump :: TISCategory where
  "TISCategoryDataDump = ''data_dump''"

definition TISCategoryCommandInjection :: TISCategory where
  "TISCategoryCommandInjection = ''command_injection''"

definition TISCategoryFileAccess :: TISCategory where
  "TISCategoryFileAccess = ''file_access''"

definition TISCategoryContextManipulation :: TISCategory where
  "TISCategoryContextManipulation = ''context_manipulation''"

definition TISCategoryTokenExhaustion :: TISCategory where
  "TISCategoryTokenExhaustion = ''token_exhaustion''"

definition TISCategoryGoalHijacking :: TISCategory where
  "TISCategoryGoalHijacking = ''goal_hijacking''"

definition TISCategoryAutonomyAbuse :: TISCategory where
  "TISCategoryAutonomyAbuse = ''autonomy_abuse''"

definition TISCategoryHallucinationInjection :: TISCategory where
  "TISCategoryHallucinationInjection = ''hallucination_injection''"

definition TISCategoryMCPInjection :: TISCategory where
  "TISCategoryMCPInjection = ''mcp_injection''"

definition TISCategoryPaymentFraud :: TISCategory where
  "TISCategoryPaymentFraud = ''payment_fraud''"

definition TISCategoryImpersonation :: TISCategory where
  "TISCategoryImpersonation = ''impersonation''"

definition TISCategoryPsychological :: TISCategory where
  "TISCategoryPsychological = ''psychological''"

definition TISCategorySocialEngineering :: TISCategory where
  "TISCategorySocialEngineering = ''social_engineering''"

definition TISCategoryObfuscation :: TISCategory where
  "TISCategoryObfuscation = ''obfuscation''"

definition TISCategoryMultiTurn :: TISCategory where
  "TISCategoryMultiTurn = ''multi_turn''"

definition TISCategoryIndirectInjection :: TISCategory where
  "TISCategoryIndirectInjection = ''indirect_injection''"

definition TISCategoryUnknown :: TISCategory where
  "TISCategoryUnknown = ''unknown''"

lemmas TISCategory_defs =
  TISCategoryInstructionOverride_def
  TISCategoryJailbreak_def
  TISCategoryRoleplay_def
  TISCategoryDataExfil_def
  TISCategoryDataDump_def
  TISCategoryCommandInjection_def
  TISCategoryFileAccess_def
  TISCategoryContextManipulation_def
  TISCategoryTokenExhaustion_def
  TISCategoryGoalHijacking_def
  TISCategoryAutonomyAbuse_def
  TISCategoryHallucinationInjection_def
  TISCategoryMCPInjection_def
  TISCategoryPaymentFraud_def
  TISCategoryImpersonation_def
  TISCategoryPsychological_def
  TISCategorySocialEngineering_def
  TISCategoryObfuscation_def
  TISCategoryMultiTurn_def
  TISCategoryIndirectInjection_def
  TISCategoryUnknown_def

text \<open>\<^verbatim>\<open>internalCategoryMapping\<close>: the map literal, entry by entry; its keys are distinct.\<close>

definition internalCategoryMapping :: "(string \<times> TISCategory) list" where
  "internalCategoryMapping =
     [(''instruction_override'', TISCategoryInstructionOverride),
      (''authority_bypass'', TISCategoryJailbreak),
      (''information_extraction'', TISCategoryDataExfil),
      (''roleplay_attack'', TISCategoryRoleplay),
      (''code_execution'', TISCategoryCommandInjection),
      (''fiction_frame'', TISCategoryMultiTurn),
      (''persona_hijack'', TISCategoryJailbreak),
      (''eval_abuse'', TISCategoryJailbreak),
      (''escalation'', TISCategoryMultiTurn),
      (''safety_disable'', TISCategoryJailbreak),
      (''restrictions_disable'', TISCategoryJailbreak),
      (''filter_disable'', TISCategoryJailbreak),
      (''unsafe_mode'', TISCategoryJailbreak),
      (''admin_override'', TISCategoryImpersonation),
      (''elevated_trust'', TISCategoryImpersonation),
      (''xml_policy'', TISCategoryInstructionOverride),
      (''ini_policy'', TISCategoryInstructionOverride),
      (''xss'', TISCategoryCommandInjection),
      (''sql_injection'', TISCategoryCommandInjection),
      (''code_injection'', TISCategoryCommandInjection),
      (''command_injection'', TISCategoryCommandInjection),
      (''path_traversal'', TISCategoryFileAccess),
      (''deserialization'', TISCategoryCommandInjection),
      (''ssrf'', TISCategoryIndirectInjection),
      (''csrf'', TISCategoryIndirectInjection),
      (''auth_bypass'', TISCategoryImpersonation),
      (''hardcoded_creds'', TISCategoryDataExfil),
      (''info_disclosure'', TISCategoryDataExfil),
      (''file_upload'', TISCategoryFileAccess),
      (''memory_corruption'', TISCategoryCommandInjection),
      (''buffer_overflow'', TISCategoryCommandInjection),
      (''use_after_free'', TISCategoryCommandInjection),
      (''privilege_escalation'', TISCategoryImpersonation),
      (''vulnerability'', TISCategoryUnknown),
      (''injection'', TISCategoryCommandInjection),
      (''rce'', TISCategoryCommandInjection),
      (''dos'', TISCategoryTokenExhaustion),
      (''malware'', TISCategoryIndirectInjection),
      (''supply_chain'', TISCategoryIndirectInjection),
      (''jailbreak'', TISCategoryJailbreak),
      (''roleplay'', TISCategoryRoleplay),
      (''data_exfil'', TISCategoryDataExfil),
      (''data_dump'', TISCategoryDataDump),
      (''file_access'', TISCategoryFileAccess),
      (''context_manipulation'', TISCategoryContextManipulation),
      (''token_exhaustion'', TISCategoryTokenExhaustion),
      (''goal_hijacking'', TISCategoryGoalHijacking),
      (''autonomy_abuse'', TISCategoryAutonomyAbuse),
      (''hallucination_injection'', TISCategoryHallucinationInjection),
      (''mcp_injection'', TISCategoryMCPInjection),
      (''payment_fraud'', TISCategoryPaymentFraud),
      (''impersonation'', TISCategoryImpersonation),
      (''psychological'', TISCategoryPsychological),
      (''social_engineering'', TISCategorySocialEngineering),
      (''obfuscation'', TISCategoryObfuscation),
      (''multi_turn'', TISCategoryMultiTurn),
      (''indirect_injection'', TISCategoryIndirectInjection)]"

definition AllTISCategories :: "TISCategory list" where
  "AllTISCategories =
     [TISCategoryInstructionOverride,
      TISCategoryJailbreak,
      TISCategoryRoleplay,
      TISCategoryDataExfil,
      TISCategoryDataDump,
      TISCategoryCommandInjection,
      TISCategoryFileAccess,
      TISCategoryContextManipulation,
      TISCategoryTokenExhaustion,
      TISCategoryGoalHijacking,
      TISCategoryAutonomyAbuse,
      TISCategoryHallucinationInjection,
      TISCategoryMCPInjection,
      TISCategoryPaymentFraud,
      TISCategoryImpersonation,
      TISCategoryPsychological,
      TISCategorySocialEngineering,
      TISCategoryObfuscation,
      TISCategoryMultiTurn,
      TISCategoryIndirectInjection,
      TISCategoryUnknown]"

text \<open>
  \<^verbatim>\<open>categoryToLower\<close> fills a zeroed byte slice of the length of \<^verbatim>\<open>s\<close> in a loop
  \<^verbatim>\<open>for i := range s\<close>. Over a string, \<^verbatim>\<open>range\<close> steps from rune to rune: a
  well-formed UTF-8 sequence (shortest form, no surrogate, at most U+10FFFF) is one rune
  of 2, 3 or 4 bytes, and any other byte is a rune of one byte. Only the first byte of a
  rune is read, folded and stored; the other bytes of a longer rune stay zero.
\<close>

definition is_continuation :: "char \<Rightarrow> bool" where
  "is_continuation c = (128 \<le> (of_char c :: nat) \<and> (of_char c :: nat) \<le> 191)"

fun rune_width :: "string \<Rightarrow> nat" where
  "rune_width [] = 1"
| "rune_width (c # cs) =
     (let b = (of_char c :: nat)
      in if b < 128 then 1
         else if 194 \<le> b \<and> b \<le> 223 then
           (case cs of
              c1 # _ \<Rightarrow> if is_continuation c1 then 2 else 1
            | _ \<Rightarrow> 1)
         else if 224 \<le> b \<and> b \<le> 239 then
           (case cs of
              c1 # c2 # _ \<Rightarrow>
                if is_continuation c1 \<and> is_continuation c2
                   \<and> (if b = 224 then 160 \<le> (of_char c1 :: nat) else True)
                   \<and> (if b = 237 then (of_char c1 :: nat) \<le> 159 else True)
                then 3 else 1
            | _ \<Rightarrow> 1)
         else if 240 \<le> b \<and> b \<le> 244 then
           (case cs of
              c1 # c2 # c3 # _ \<Rightarrow>
                if is_continuation c1 \<and> is_continuation c2 \<and> is_continuation c3
                   \<and> (if b = 240 then 144 \<le> (of_char c1 :: nat) else True)
                   \<and> (if b = 244 then (of_char c1 :: nat) \<le> 143 else True)
                then 4 else 1
            | _ \<Rightarrow> 1)
         else 1)"

fun categoryToLower :: "string \<Rightarrow> string" where
  "categoryToLower [] = []"
| "categoryToLower (c # cs) =
     lower_byte c # replicate (rune_width (c # cs) - 1) (CHR 0x00)
       @ categoryToLower (drop (rune_width (c # cs) - 1) cs)"

text \<open>
  \<^verbatim>\<open>categoryContainsSubstr\<close>: the loop over \<^verbatim>\<open>i\<close> from 0 to \<^verbatim>\<open>len(s)-len(substr)\<close>,
  comparing the slice \<^verbatim>\<open>s[i:i+len(substr)]\<close>.
\<close>

function contains_from :: "string \<Rightarrow> string \<Rightarrow> nat \<Rightarrow> bool" where
  "contains_from s substr i =
     (if i \<le> length s - length substr then
        (if take (length substr) (drop i s) = substr then True
         else contains_from s substr (i + 1))
      else False)"
  by pat_completeness auto
termination
  by (relation "measure (\<lambda>(s, substr, i). length s - length substr + 1 - i)") auto

definition categoryContainsSubstr :: "string \<Rightarrow> string \<Rightarrow> bool" where
  "categoryContainsSubstr s substr =
     (if length substr = 0 then True
      else if length substr > length s then False
      else contains_from s substr 0)"

definition categoryContainsAny :: "string \<Rightarrow> string list \<Rightarrow> bool" where
  "categoryContainsAny category substrs =
     (let lower = categoryToLower category
      in list_ex (\<lambda>s. categoryContainsSubstr lower s) substrs)"

definition NormalizeCategory :: "string \<Rightarrow> TISCategory" where
  "NormalizeCategory category =
     (if category = '''' then TISCategoryUnknown
      else case map_of internalCategoryMapping category of
             Some tis \<Rightarrow> tis
           | None \<Rightarrow>

               if categoryContainsAny category [''inject'', ''override'', ''ignore'', ''bypass'']
                 then TISCategoryInstructionOverride
               else if categoryContainsAny category [''jailbreak'', ''dan'', ''unrestrict'', ''persona'']
                 then TISCategoryJailbreak
               else if categoryContainsAny category [''exfil'', ''extract'', ''leak'', ''expose'']
                 then TISCategoryDataExfil
               else if categoryContainsAny category [''exec'', ''shell'', ''command'', ''code'']
                 then TISCategoryCommandInjection
               else if categoryContainsAny category [''obfusc'', ''encod'', ''evas'']
                 then TISCategoryObfuscation
               else if categoryContainsAny category [''social'', ''manipul'', ''urgen'', ''pressure'']
                 then TISCategorySocialEngineering
               else if categoryContainsAny category [''multi'', ''turn'', ''crescendo'', ''escal'']
                 then TISCategoryMultiTurn
               else if categoryContainsAny category [''payment'', ''fraud'', ''wallet'', ''x402'']
                 then TISCategoryPaymentFraud
               else if categoryContainsAny category [''imperson'', ''authority'', ''admin'']
                 then TISCategoryImpersonation
               else if categoryContainsAny category [''file'', ''path'', ''traversal'']
                 then TISCategoryFileAccess
               else if categoryContainsAny category [''mcp'', ''tool'', ''agent'']
                 then TISCategoryMCPInjection
               else TISCategoryUnknown)"

section \<open>Gzip decoder\<close>

text \<open>
  Modelled from the spec: \<^verbatim>\<open>TryGzipDecompress\<close> is not among the source files (only its
  tests are). The spec, section 4.1 item 10: Gzip-in-Base64 is decoded, decompressed, and
  the output is hard-capped at 1 MiB; its tests expect the empty string where the input
  holds no gzip payload or an invalid one. Finding and decoding the Base64 payload and
  inflating it are the Go standard library's, taken here as the arguments
  \<open>decodeBase64\<close> and \<open>gunzip\<close>, \<open>None\<close> being their failure.
\<close>

definition maxGzipOutput :: nat where
  "maxGzipOutput = 1024 * 1024"

definition TryGzipDecompress ::
  "(string \<Rightarrow> string option) \<Rightarrow> (string \<Rightarrow> string option) \<Rightarrow> string \<Rightarrow> string" where
  "TryGzipDecompress decodeBase64 gunzip text =
     (case decodeBase64 text of
        None \<Rightarrow> ''''
      | Some compressed \<Rightarrow>
          (case gunzip compressed of
             None \<Rightarrow> ''''
           | Some decompressed \<Rightarrow> take maxGzipOutput decompressed))"

section \<open>Scenario signals and evaluation\<close>

text \<open>
  A signal of weight 1 with no reasons, no obfuscation markers and no metadata, for the
  concrete scenarios below.
\<close>

definition signal :: "SignalSource \<Rightarrow> real \<Rightarrow> real \<Rightarrow> string \<Rightarrow> DetectionSignal" where
  "signal source score confidence label =
     \<lparr> Source = source, Score = score, Confidence = confidence, Label = label,
       Weight = 1.0, Reasons = [], ObfuscationTypes = [], LatencyMs = 0,
       Metadata = Map.empty \<rparr>"

lemmas tier_defs =
  Aggregate_def initial_result_def tier0_secrets_def tier0_high_score_def tier1_def tier2_def
  tier2_veto_def tier2_boost_def tier3_def secrets_found_def clamp_one_def sort_Slice_def insertionSort_def
  GetSignal_def HasSignal_def HasObfuscation_def DetectionSignal_HasObfuscation_def
  IsHighConfidence_def IsLowConfidence_def IsSafe_def IsMalicious_def
  calculateWeightedScore_def weighted_step_def scoreToAction_def scoreToRiskLevel_def
  ShouldEscalateToSafeguard_def ShouldTriggerDeeperGoAnalysis_def abs_f64_def
  buildAggregationReason_def GetAllObfuscationTypes_def
  SignalSourceHeuristic_def SignalSourceBERT_def SignalSourceSafeguard_def SignalSourceDeeperGo_def
  EscalationNone_def EscalationDeeperGo_def EscalationSafeguard_def
  DefaultAggregationThresholds_def NewSignalAggregator_def NewSignalAggregatorWithThresholds_def
  AddSignal_def signal_def Let_def

section \<open>Properties of the aggregator\<close>

subsection \<open>TIER 0: secrets\<close>

lemma find_secrets:
  assumes "s \<in> set xs" and "secrets_found s"
  shows "\<exists>s'. find secrets_found xs = Some s'"
  using assms by (cases "find secrets_found xs") (auto simp: find_None_iff)

text \<open>
  Claim C1. Whenever some signal of the aggregator carries \<^verbatim>\<open>secrets_found = true\<close> in its
  metadata, \<^verbatim>\<open>Aggregate\<close> returns final score 1.0, action \<^verbatim>\<open>BLOCK\<close>, risk level
  \<^verbatim>\<open>CRITICAL\<close> and decision path \<^verbatim>\<open>TIER_0_SECRETS\<close>, whatever the thresholds and the
  other signals are.
\<close>

theorem Aggregate_secrets:
  assumes "s \<in> set (signals a)"
    and "Metadata s ''secrets_found'' = Some (BoolV True)"
  shows "FinalScore (Aggregate pdqsort a) = 1.0 \<and> Action (Aggregate pdqsort a) = ''BLOCK'' \<and>
         RiskLevel (Aggregate pdqsort a) = ''CRITICAL'' \<and> DecisionPath (Aggregate pdqsort a) = ''TIER_0_SECRETS''"
proof -
  from assms(2) have "secrets_found s"
    by (simp add: secrets_found_def)
  with assms(1) obtain s' where "find secrets_found (signals a) = Some s'"
    using find_secrets by blast
  then show ?thesis
    by (simp add: Aggregate_def tier0_secrets_def)
qed

theorem Aggregate_secrets_witness:
  "FinalScore (Aggregate insertionSort \<lparr> thresholds = DefaultAggregationThresholds,
       signals = [signal ''bert'' 0.01 0.99 ''SAFE'',
                  (signal ''heuristic'' 0.1 0.5 ''SAFE'')\<lparr> Metadata := [''secrets_found'' \<mapsto> BoolV True] \<rparr>] \<rparr>) = 1
   \<and> DecisionPath (Aggregate insertionSort \<lparr> thresholds = DefaultAggregationThresholds,
       signals = [signal ''bert'' 0.01 0.99 ''SAFE'',
                  (signal ''heuristic'' 0.1 0.5 ''SAFE'')\<lparr> Metadata := [''secrets_found'' \<mapsto> BoolV True] \<rparr>] \<rparr>)
       = ''TIER_0_SECRETS''"
  using Aggregate_secrets [of "(signal ''heuristic'' 0.1 0.5 ''SAFE'')\<lparr> Metadata := [''secrets_found'' \<mapsto> BoolV True] \<rparr>"
      "\<lparr> thresholds = DefaultAggregationThresholds,
       signals = [signal ''bert'' 0.01 0.99 ''SAFE'',
                  (signal ''heuristic'' 0.1 0.5 ''SAFE'')\<lparr> Metadata := [''secrets_found'' \<mapsto> BoolV True] \<rparr>] \<rparr>"
      insertionSort]
  by simp

subsection \<open>The action follows the final score on every path\<close>

lemma tier0_secrets_action:
  "tier0_secrets a r0 = Some r \<Longrightarrow> Action r = scoreToAction (FinalScore r)"
  by (auto simp: tier0_secrets_def scoreToAction_def split: option.splits)

lemma tier0_high_score_action:
  "tier0_high_score a r0 = Some r \<Longrightarrow> Action r = scoreToAction (FinalScore r)"
  by (auto simp: tier0_high_score_def scoreToAction_def split: option.splits
      dest!: find_Some_iff[THEN iffD1])

lemma tier1_action:
  "tier1 pdqsort a r0 = Some r \<Longrightarrow> Action r = scoreToAction (FinalScore r)"
  by (auto simp: tier1_def Let_def split: option.splits list.splits if_splits)

lemma tier2_action:
  "tier2 a r0 = Some r \<Longrightarrow> Action r = scoreToAction (FinalScore r)"
  by (auto simp: tier2_def tier2_veto_def tier2_boost_def Let_def split: option.splits if_splits)

lemma tier3_action:
  "Action (tier3 a r0) = scoreToAction (FinalScore (tier3 a r0))"
  by (simp add: tier3_def Let_def)

lemma Aggregate_action:
  "Action (Aggregate pdqsort a) = scoreToAction (FinalScore (Aggregate pdqsort a))"
  by (simp add: Aggregate_def Let_def tier0_secrets_action tier0_high_score_action tier1_action
      tier2_action tier3_action split: option.splits)

text \<open>
  Claim C2. For every aggregator (any thresholds, any signals) the action of the result of
  \<^verbatim>\<open>Aggregate\<close> agrees with its final score: \<^verbatim>\<open>BLOCK\<close> exactly when the score is at
  least 0.70, \<^verbatim>\<open>WARN\<close> exactly when it is in [0.40, 0.70), \<^verbatim>\<open>ALLOW\<close> exactly when it
  is below 0.40. This covers every decision path, TIER 0 to TIER 3.
\<close>

theorem Aggregate_action_consistent:
  "(Action (Aggregate pdqsort a) = ''BLOCK'' \<longleftrightarrow> 0.70 \<le> FinalScore (Aggregate pdqsort a)) \<and>
   (Action (Aggregate pdqsort a) = ''WARN'' \<longleftrightarrow>
      0.40 \<le> FinalScore (Aggregate pdqsort a) \<and> FinalScore (Aggregate pdqsort a) < 0.70) \<and>
   (Action (Aggregate pdqsort a) = ''ALLOW'' \<longleftrightarrow> FinalScore (Aggregate pdqsort a) < 0.40)"
  unfolding Aggregate_action by (simp add: scoreToAction_def)

theorem Aggregate_action_consistent_witness:
  "Action (Aggregate insertionSort \<lparr> thresholds = DefaultAggregationThresholds,
       signals = [signal ''heuristic'' 0.6 0.5 ''INJECTION'', signal ''bert'' 0.4 0.5 ''SAFE''] \<rparr>) = ''WARN''"
proof -
  let ?a = "\<lparr> thresholds = DefaultAggregationThresholds,
       signals = [signal ''heuristic'' 0.6 0.5 ''INJECTION'', signal ''bert'' 0.4 0.5 ''SAFE''] \<rparr>"
  have "FinalScore (Aggregate insertionSort ?a) = 0.5"
    by (simp add: tier_defs)
  with Aggregate_action_consistent [of insertionSort ?a] show ?thesis
    by simp
qed

subsection \<open>The confidence-weighted mean\<close>

lemma fold_weighted_step:
  "fold weighted_step xs acc =
     (fst acc + (\<Sum>s\<leftarrow>xs. Score s * Weight s * Confidence s),
      snd acc + (\<Sum>s\<leftarrow>xs. Weight s * Confidence s))"
  by (induction xs arbitrary: acc) (simp_all add: weighted_step_def algebra_simps)

text \<open>
  Claim C3. The fused score computed by \<^verbatim>\<open>calculateWeightedScore\<close> for TIER 3 is the sum of
  score times weight times confidence divided by the sum of weight times confidence, over
  all signals; it is 0 when that sum of effective weights is zero, which includes the
  empty list of signals.
\<close>

theorem calculateWeightedScore_mean:
  "calculateWeightedScore a =
     (if (\<Sum>s\<leftarrow>signals a. Weight s * Confidence s) = 0 then 0
      else (\<Sum>s\<leftarrow>signals a. Score s * Weight s * Confidence s)
             / (\<Sum>s\<leftarrow>signals a. Weight s * Confidence s))"
  by (simp add: calculateWeightedScore_def fold_weighted_step Let_def)

theorem calculateWeightedScore_mean_witness:
  "calculateWeightedScore
     \<lparr> thresholds = DefaultAggregationThresholds,
       signals = [signal ''heuristic'' 0.8 0.5 ''INJECTION'', signal ''bert'' 0.2 0.5 ''SAFE''] \<rparr> = 0.5
   \<and> calculateWeightedScore
     \<lparr> thresholds = DefaultAggregationThresholds,
       signals = [signal ''heuristic'' 0.8 0 ''INJECTION''] \<rparr> = 0
   \<and> calculateWeightedScore NewSignalAggregator = 0"
  using calculateWeightedScore_mean [of "\<lparr> thresholds = DefaultAggregationThresholds,
       signals = [signal ''heuristic'' 0.8 0.5 ''INJECTION'', signal ''bert'' 0.2 0.5 ''SAFE''] \<rparr>"]
    calculateWeightedScore_mean [of "\<lparr> thresholds = DefaultAggregationThresholds,
       signals = [signal ''heuristic'' 0.8 0 ''INJECTION''] \<rparr>"]
    calculateWeightedScore_mean [of NewSignalAggregator]
  by (simp add: signal_def NewSignalAggregator_def)

subsection \<open>The risk table\<close>

text \<open>
  Claim C6. \<^verbatim>\<open>scoreToRiskLevel\<close> depends on the score alone and implements the table:
  \<^verbatim>\<open>CRITICAL\<close> from 0.90, \<^verbatim>\<open>HIGH\<close> on [0.70, 0.90), \<^verbatim>\<open>MEDIUM\<close> on [0.50, 0.70),
  \<^verbatim>\<open>LOW\<close> on [0.30, 0.50), \<^verbatim>\<open>MINIMAL\<close> below 0.30. It is therefore monotone in the
  score for the order \<^verbatim>\<open>MINIMAL < LOW < MEDIUM < HIGH < CRITICAL\<close>.
\<close>

theorem scoreToRiskLevel_table:
  "(scoreToRiskLevel s = ''CRITICAL'' \<longleftrightarrow> 0.90 \<le> s) \<and>
   (scoreToRiskLevel s = ''HIGH'' \<longleftrightarrow> 0.70 \<le> s \<and> s < 0.90) \<and>
   (scoreToRiskLevel s = ''MEDIUM'' \<longleftrightarrow> 0.50 \<le> s \<and> s < 0.70) \<and>
   (scoreToRiskLevel s = ''LOW'' \<longleftrightarrow> 0.30 \<le> s \<and> s < 0.50) \<and>
   (scoreToRiskLevel s = ''MINIMAL'' \<longleftrightarrow> s < 0.30) \<and>
   (s \<le> t \<longrightarrow> risk_rank (scoreToRiskLevel s) \<le> risk_rank (scoreToRiskLevel t))"
  by (simp add: scoreToRiskLevel_def risk_rank_def)

theorem scoreToRiskLevel_table_witness:
  "scoreToRiskLevel 0.5 = ''MEDIUM'' \<and> scoreToRiskLevel 0.95 = ''CRITICAL'' \<and>
   risk_rank (scoreToRiskLevel 0.5) \<le> risk_rank (scoreToRiskLevel 0.95)"
  using scoreToRiskLevel_table [of "0.5" "0.95"] scoreToRiskLevel_table [of "0.95" "0.95"]
  by (simp add: risk_rank_def)

subsection \<open>No signals\<close>

text \<open>
  Claim C10, amended. With no signals at all, and a safeguard-escalation threshold above
  zero (the default is 0.40), \<^verbatim>\<open>Aggregate\<close> returns final score 0, action
  \<^verbatim>\<open>ALLOW\<close>, risk level \<^verbatim>\<open>MINIMAL\<close>, the reason \<^verbatim>\<open>No signals\<close>, decision path
  \<^verbatim>\<open>TIER_3_WEIGHTED_AGGREGATION\<close>, no deobfuscation, no obfuscation types, zero latency
  and an empty escalation request. The model has no failure value: every path of the
  source returns a result.
\<close>

theorem Aggregate_no_signals:
  assumes "signals a = []" and "0 < SafeguardEscalation (thresholds a)"
  shows "Aggregate pdqsort a =
     \<lparr> FinalScore = 0.0, Action = ''ALLOW'', RiskLevel = ''MINIMAL'',
       Reason = [Str ''No signals''], DecisionPath = ''TIER_3_WEIGHTED_AGGREGATION'',
       Signals = [], WasDeobfuscated = False, ResultObfuscationTypes = [],
       EscalationNeeded = EscalationNone, TotalLatencyMs = 0 \<rparr>"
  using assms by (simp add: tier_defs)

theorem Aggregate_no_signals_witness:
  "Aggregate insertionSort NewSignalAggregator =
     \<lparr> FinalScore = 0.0, Action = ''ALLOW'', RiskLevel = ''MINIMAL'',
       Reason = [Str ''No signals''], DecisionPath = ''TIER_3_WEIGHTED_AGGREGATION'',
       Signals = [], WasDeobfuscated = False, ResultObfuscationTypes = [],
       EscalationNeeded = '''', TotalLatencyMs = 0 \<rparr>"
proof -
  have "signals NewSignalAggregator = []"
    and "0 < SafeguardEscalation (thresholds NewSignalAggregator)"
    by (simp_all add: NewSignalAggregator_def DefaultAggregationThresholds_def)
  from Aggregate_no_signals [OF this, where pdqsort = insertionSort] show ?thesis
    by (simp add: EscalationNone_def)
qed

text \<open>
  The claim as stated does not hold for every aggregator: with the safeguard-escalation
  threshold set to 0 the fused score 0 lies in the ambiguous band \<^verbatim>\<open>[0, 0.70]\<close>, no
  high-confidence signal is there to trust, and the result asks for \<^verbatim>\<open>safeguard\<close>.
\<close>

theorem Aggregate_no_signals_counterexample:
  "signals (NewSignalAggregatorWithThresholds
       (DefaultAggregationThresholds\<lparr> SafeguardEscalation := 0 \<rparr>)) = [] \<and>
   EscalationNeeded (Aggregate insertionSort (NewSignalAggregatorWithThresholds
       (DefaultAggregationThresholds\<lparr> SafeguardEscalation := 0 \<rparr>))) = ''safeguard'' \<and>
   EscalationNeeded (Aggregate insertionSort (NewSignalAggregatorWithThresholds
       (DefaultAggregationThresholds\<lparr> SafeguardEscalation := 0 \<rparr>))) \<noteq> EscalationNone"
  by (simp add: tier_defs)

subsection \<open>TIER 2: the obfuscation veto\<close>

lemma tier3_path: "DecisionPath (tier3 a r) = ''TIER_3_WEIGHTED_AGGREGATION''"
  by (simp add: tier3_def Let_def)

lemma tier2_boost_path:
  "tier2_boost a r h b = Some r' \<Longrightarrow> DecisionPath r' = ''TIER_2_OBFUSCATION_BOOST''"
  by (auto simp: tier2_boost_def Let_def split: if_splits)

text \<open>
  Claim C4, amended. Under the default thresholds, when no earlier tier returned,
  obfuscation was observed, the first heuristic signal is \<open>h\<close>, the first BERT signal is
  \<open>b\<close>, and \<open>b\<close> is \<^verbatim>\<open>SAFE\<close> with confidence below 0.85: the veto fires exactly when
  the boosted score, the heuristic score times 1.3, is at least 0.5. Then \<^verbatim>\<open>Aggregate\<close>
  returns that boosted score clamped to 1.0, with decision path
  \<^verbatim>\<open>TIER_2_OBFUSCATION_VETO\<close> and escalation \<^verbatim>\<open>deeper_go\<close>; in particular it does so
  whenever the heuristic score is at least 0.5. The veto does not fire when the boosted
  score is below 0.5.
\<close>

theorem tier2_veto_on_boosted_score:
  assumes "thresholds a = DefaultAggregationThresholds"
    and "tier0_secrets a (initial_result a) = None"
    and "tier0_high_score a (initial_result a) = None"
    and "tier1 pdqsort a (initial_result a) = None"
    and "HasObfuscation a"
    and "GetSignal a SignalSourceHeuristic = Some h"
    and "GetSignal a SignalSourceBERT = Some b"
    and "IsSafe b" and "Confidence b < 0.85"
  shows "(0.5 \<le> Score h \<longrightarrow>
            FinalScore (Aggregate pdqsort a) = clamp_one (Score h * 1.3) \<and>
            DecisionPath (Aggregate pdqsort a) = ''TIER_2_OBFUSCATION_VETO'' \<and>
            EscalationNeeded (Aggregate pdqsort a) = EscalationDeeperGo) \<and>
         (0.5 \<le> Score h * 1.3 \<longrightarrow>
            FinalScore (Aggregate pdqsort a) = clamp_one (Score h * 1.3) \<and>
            DecisionPath (Aggregate pdqsort a) = ''TIER_2_OBFUSCATION_VETO'' \<and>
            EscalationNeeded (Aggregate pdqsort a) = EscalationDeeperGo) \<and>
         (Score h * 1.3 < 0.5 \<longrightarrow> DecisionPath (Aggregate pdqsort a) \<noteq> ''TIER_2_OBFUSCATION_VETO'')"
proof -
  have agg: "Aggregate pdqsort a =
      (case tier2 a (initial_result a) of Some r \<Rightarrow> r | None \<Rightarrow> tier3 a (initial_result a))"
    using assms(2-4) by (simp add: Aggregate_def Let_def)
  have t2: "tier2 a (initial_result a) =
      (case tier2_veto a (initial_result a) h b of
         Some r \<Rightarrow> Some r
       | None \<Rightarrow> tier2_boost a (initial_result a) h b)"
    using assms(5-7) by (simp add: tier2_def)
  have fire: "FinalScore (Aggregate pdqsort a) = clamp_one (Score h * 1.3) \<and>
            DecisionPath (Aggregate pdqsort a) = ''TIER_2_OBFUSCATION_VETO'' \<and>
            EscalationNeeded (Aggregate pdqsort a) = EscalationDeeperGo"
    if "0.5 \<le> Score h * 1.3"
  proof -
    have "0.5 \<le> clamp_one (Score h * 1.3)"
      using that by (simp add: clamp_one_def)
    then show ?thesis
      using assms(1,8,9)
      by (simp add: agg t2 tier2_veto_def DefaultAggregationThresholds_def Let_def)
  qed
  have quiet: "DecisionPath (Aggregate pdqsort a) \<noteq> ''TIER_2_OBFUSCATION_VETO''"
    if "Score h * 1.3 < 0.5"
  proof -
    have "\<not> 0.5 \<le> clamp_one (Score h * 1.3)"
      using that by (simp add: clamp_one_def)
    then have "tier2_veto a (initial_result a) h b = None"
      using assms(1) by (simp add: tier2_veto_def DefaultAggregationThresholds_def Let_def)
    then show ?thesis
      by (cases "tier2_boost a (initial_result a) h b")
         (auto simp: agg t2 tier3_path dest: tier2_boost_path)
  qed
  have "0.5 \<le> Score h * 1.3" if "0.5 \<le> Score h"
    using that by simp
  with fire quiet show ?thesis
    by blast
qed


theorem tier2_veto_on_boosted_score_witness:
  "FinalScore (Aggregate insertionSort \<lparr> thresholds = DefaultAggregationThresholds,
       signals = [(signal ''heuristic'' 0.6 0.6 ''INJECTION'')\<lparr> ObfuscationTypes := [''base64''] \<rparr>,
                  signal ''bert'' 0.1 0.6 ''SAFE''] \<rparr>) = 0.78 \<and>
   DecisionPath (Aggregate insertionSort \<lparr> thresholds = DefaultAggregationThresholds,
       signals = [(signal ''heuristic'' 0.6 0.6 ''INJECTION'')\<lparr> ObfuscationTypes := [''base64''] \<rparr>,
                  signal ''bert'' 0.1 0.6 ''SAFE''] \<rparr>) = ''TIER_2_OBFUSCATION_VETO'' \<and>
   EscalationNeeded (Aggregate insertionSort \<lparr> thresholds = DefaultAggregationThresholds,
       signals = [(signal ''heuristic'' 0.6 0.6 ''INJECTION'')\<lparr> ObfuscationTypes := [''base64''] \<rparr>,
                  signal ''bert'' 0.1 0.6 ''SAFE''] \<rparr>) = ''deeper_go''"
proof -
  let ?h = "(signal ''heuristic'' 0.6 0.6 ''INJECTION'')\<lparr> ObfuscationTypes := [''base64''] \<rparr>"
  let ?b = "signal ''bert'' 0.1 0.6 ''SAFE''"
  let ?a = "\<lparr> thresholds = DefaultAggregationThresholds, signals = [?h, ?b] \<rparr>"
  have "thresholds ?a = DefaultAggregationThresholds"
    and "tier0_secrets ?a (initial_result ?a) = None"
    and "tier0_high_score ?a (initial_result ?a) = None"
    and "tier1 insertionSort ?a (initial_result ?a) = None"
    and "HasObfuscation ?a"
    and "GetSignal ?a SignalSourceHeuristic = Some ?h"
    and "GetSignal ?a SignalSourceBERT = Some ?b"
    and "IsSafe ?b" and "Confidence ?b < 0.85"
    by (simp_all add: tier_defs)
  from tier2_veto_on_boosted_score [OF this] show ?thesis
    by (simp add: signal_def clamp_one_def EscalationDeeperGo_def)
qed

text \<open>
  The threshold 0.5 is tested on the boosted score, not on the heuristic score: a heuristic
  score of 0.4, below 0.5, is boosted to 0.52 and the veto fires.
\<close>

theorem tier2_veto_below_half_counterexample:
  "Score ((signal ''heuristic'' 0.4 0.6 ''INJECTION'')\<lparr> ObfuscationTypes := [''base64''] \<rparr>) < 0.5 \<and>
   GetSignal \<lparr> thresholds = DefaultAggregationThresholds,
       signals = [(signal ''heuristic'' 0.4 0.6 ''INJECTION'')\<lparr> ObfuscationTypes := [''base64''] \<rparr>,
                  signal ''bert'' 0.1 0.6 ''SAFE''] \<rparr> SignalSourceHeuristic
     = Some ((signal ''heuristic'' 0.4 0.6 ''INJECTION'')\<lparr> ObfuscationTypes := [''base64''] \<rparr>) \<and>
   DecisionPath (Aggregate insertionSort \<lparr> thresholds = DefaultAggregationThresholds,
       signals = [(signal ''heuristic'' 0.4 0.6 ''INJECTION'')\<lparr> ObfuscationTypes := [''base64''] \<rparr>,
                  signal ''bert'' 0.1 0.6 ''SAFE''] \<rparr>) = ''TIER_2_OBFUSCATION_VETO'' \<and>
   FinalScore (Aggregate insertionSort \<lparr> thresholds = DefaultAggregationThresholds,
       signals = [(signal ''heuristic'' 0.4 0.6 ''INJECTION'')\<lparr> ObfuscationTypes := [''base64''] \<rparr>,
                  signal ''bert'' 0.1 0.6 ''SAFE''] \<rparr>) = 0.52"
  by (simp add: tier_defs)

subsection \<open>TIER 1: high-confidence agreement\<close>

lemma mset_insert_left: "mset (insert_left lt x rs) = add_mset x (mset rs)"
  by (induction rs) auto

lemma set_insert_left: "set (insert_left lt x rs) = insert x (set rs)"
  by (induction rs) auto

lemma ascending_insert_left:
  "sorted_wrt (\<lambda>p q. Confidence p \<le> Confidence q) rs \<Longrightarrow>
   sorted_wrt (\<lambda>p q. Confidence p \<le> Confidence q) (insert_left by_confidence x rs)"
  by (induction rs) (auto simp: set_insert_left)

lemma foldl_insert_left:
  "sorted_wrt (\<lambda>p q. Confidence p \<le> Confidence q) rs \<Longrightarrow>
   sorted_wrt (\<lambda>p q. Confidence p \<le> Confidence q)
     (foldl (\<lambda>rs x. insert_left by_confidence x rs) rs xs) \<and>
   mset (foldl (\<lambda>rs x. insert_left by_confidence x rs) rs xs) = mset rs + mset xs"
proof (induction xs arbitrary: rs)
  case Nil
  then show ?case by simp
next
  case (Cons x xs)
  from Cons.prems have "sorted_wrt (\<lambda>p q. Confidence p \<le> Confidence q) (insert_left by_confidence x rs)"
    by (rule ascending_insert_left)
  from Cons.IH [OF this] show ?case
    by (simp add: mset_insert_left)
qed

lemma insertionSort_sorted_by:
  "sorted_by by_confidence xs (insertionSort by_confidence xs)"
  using foldl_insert_left [of "[]" xs]
  by (simp add: sorted_by_def insertionSort_def sorted_wrt_rev not_less)

lemma sort_Slice_sorted_by:
  assumes "12 < length xs \<Longrightarrow> sorted_by by_confidence xs (pdqsort by_confidence xs)"
  shows "sorted_by by_confidence xs (sort_Slice pdqsort by_confidence xs)"
  using assms by (simp add: sort_Slice_def insertionSort_sorted_by)

lemma sorted_by_head:
  assumes "sorted_by by_confidence xs ys" and "xs \<noteq> []"
  shows "\<exists>top rest. ys = top # rest \<and> set ys = set xs \<and>
           (\<forall>s\<in>set xs. Confidence s \<le> Confidence top)"
proof -
  from assms(1) have m: "mset ys = mset xs"
    and srt: "sorted_wrt (\<lambda>p q. Confidence q \<le> Confidence p) ys"
    by (simp_all add: sorted_by_def not_less)
  from m have elems: "set ys = set xs"
    by (rule mset_eq_setD)
  with assms(2) obtain top rest where ys: "ys = top # rest"
    by (cases ys) auto
  with srt have "\<forall>s\<in>set ys. Confidence s \<le> Confidence top"
    by auto
  with ys elems show ?thesis
    by blast
qed

lemma tier1_fires:
  assumes "filter IsHighConfidence (signals a) = hc"
    and "hc \<noteq> []"
    and "\<forall>s\<in>set hc. \<forall>s'\<in>set hc. Label s = Label s'"
    and "sorted_by by_confidence hc (sort_Slice pdqsort by_confidence hc)"
  shows "\<exists>top\<in>set hc. \<exists>r'. (\<forall>s\<in>set hc. Confidence s \<le> Confidence top) \<and>
           tier1 pdqsort a r = Some r' \<and> FinalScore r' = Score top \<and>
           DecisionPath r' = ''TIER_1_HIGH_CONFIDENCE_AGREEMENT''"
proof -
  from sorted_by_head [OF assms(4) assms(2)] obtain top rest where
    sorted: "sort_Slice pdqsort by_confidence hc = top # rest"
    and elems: "set (top # rest) = set hc"
    and top: "\<forall>s\<in>set hc. Confidence s \<le> Confidence top"
    by auto
  from elems have top_in: "top \<in> set hc"
    by auto
  with assms(3) elems have agree: "list_all (\<lambda>s. Label s = Label top) (top # rest)"
    unfolding list_all_iff by blast
  have len: "length hc > 0"
    using assms(2) by simp
  have "\<exists>r'. tier1 pdqsort a r = Some r' \<and> FinalScore r' = Score top \<and>
           DecisionPath r' = ''TIER_1_HIGH_CONFIDENCE_AGREEMENT''"
    unfolding tier1_def Let_def assms(1) sorted
    using agree len by simp
  with top top_in show ?thesis
    by blast
qed

text \<open>
  Claim C5, amended. When no TIER 0 rule returned, at least one signal has confidence at
  least 0.85, and all such signals carry the same label, \<^verbatim>\<open>Aggregate\<close> returns decision
  path \<^verbatim>\<open>TIER_1_HIGH_CONFIDENCE_AGREEMENT\<close> and the score of a high-confidence signal
  whose confidence is the top one. Where several signals share that top confidence, the
  score is that of one of them. This holds for any number of signals: up to 12
  high-confidence signals are sorted by the insertion sort, and of the library's sort of a
  longer slice only its promise \<open>sorted_by\<close> is used.
\<close>

theorem tier1_top_confidence:
  assumes "tier0_secrets a (initial_result a) = None"
    and "tier0_high_score a (initial_result a) = None"
    and "hc = filter IsHighConfidence (signals a)"
    and "hc \<noteq> []"
    and "\<forall>s\<in>set hc. \<forall>s'\<in>set hc. Label s = Label s'"
    and "12 < length hc \<Longrightarrow> sorted_by by_confidence hc (pdqsort by_confidence hc)"
  shows "\<exists>top\<in>set hc. (\<forall>s\<in>set hc. Confidence s \<le> Confidence top) \<and>
           FinalScore (Aggregate pdqsort a) = Score top \<and>
           DecisionPath (Aggregate pdqsort a) = ''TIER_1_HIGH_CONFIDENCE_AGREEMENT''"
proof -
  have "sorted_by by_confidence hc (sort_Slice pdqsort by_confidence hc)"
    using assms(6) by (rule sort_Slice_sorted_by)
  from tier1_fires [OF assms(3) [symmetric] assms(4) assms(5) this, of "initial_result a"]
  obtain top r' where "top \<in> set hc"
    and "\<forall>s\<in>set hc. Confidence s \<le> Confidence top"
    and "tier1 pdqsort a (initial_result a) = Some r'"
    and "FinalScore r' = Score top"
    and "DecisionPath r' = ''TIER_1_HIGH_CONFIDENCE_AGREEMENT''"
    by blast
  moreover from this(3) have "Aggregate pdqsort a = r'"
    unfolding Aggregate_def Let_def assms(1) assms(2) by simp
  ultimately show ?thesis
    by blast
qed

text \<open>
  Thirteen high-confidence signals, so that the slice goes to the sort of long slices (here
  the insertion sort, which keeps the promise): the one signal of top confidence 0.99
  decides.
\<close>

theorem tier1_top_confidence_witness:
  "FinalScore (Aggregate insertionSort \<lparr> thresholds = DefaultAggregationThresholds,
       signals = replicate 12 (signal ''semantic'' 0.5 0.9 ''SAFE'')
                 @ [signal ''bert'' 0.25 0.99 ''SAFE'', signal ''heuristic'' 0.1 0.5 ''SAFE''] \<rparr>) = 0.25 \<and>
   DecisionPath (Aggregate insertionSort \<lparr> thresholds = DefaultAggregationThresholds,
       signals = replicate 12 (signal ''semantic'' 0.5 0.9 ''SAFE'')
                 @ [signal ''bert'' 0.25 0.99 ''SAFE'', signal ''heuristic'' 0.1 0.5 ''SAFE''] \<rparr>)
     = ''TIER_1_HIGH_CONFIDENCE_AGREEMENT''"
proof -
  let ?s = "signal ''semantic'' 0.5 0.9 ''SAFE''"
  let ?b = "signal ''bert'' 0.25 0.99 ''SAFE''"
  let ?h = "signal ''heuristic'' 0.1 0.5 ''SAFE''"
  let ?a = "\<lparr> thresholds = DefaultAggregationThresholds,
       signals = replicate 12 ?s @ [?b, ?h] \<rparr>"
  let ?hc = "replicate 12 ?s @ [?b]"
  have "find secrets_found (signals ?a) = None"
    by (auto simp: find_None_iff secrets_found_def signal_def)
  then have h1: "tier0_secrets ?a (initial_result ?a) = None"
    by (simp add: tier0_secrets_def)
  have "find (\<lambda>s. Score s \<ge> 0.95 \<and> IsHighConfidence s) (signals ?a) = None"
    by (auto simp: find_None_iff signal_def)
  then have h2: "tier0_high_score ?a (initial_result ?a) = None"
    by (simp add: tier0_high_score_def)
  have h3: "?hc = filter IsHighConfidence (signals ?a)"
    by (simp add: IsHighConfidence_def signal_def)
  have h4: "?hc \<noteq> []"
    by simp
  have h5: "\<forall>s\<in>set ?hc. \<forall>s'\<in>set ?hc. Label s = Label s'"
    by (simp add: signal_def)
  have h6: "sorted_by by_confidence ?hc (insertionSort by_confidence ?hc)"
    by (rule insertionSort_sorted_by)
  have long: "12 < length ?hc"
    by simp
  from tier1_top_confidence [where pdqsort = insertionSort and a = ?a and hc = ?hc,
      OF h1 h2 h3 h4 h5 h6] show ?thesis
    by (simp add: signal_def)
qed

text \<open>
  A heuristic signal and a BERT signal of the same top confidence, added in this order:
  the heuristic signal's score is returned, not the score of the BERT signal, which is the
  later one in the source order \<^verbatim>\<open>heuristic < semantic < bert < safeguard < llm\<close>. The
  code compares confidences only; no source order enters the sort.
\<close>

theorem tier1_source_order_counterexample:
  "Confidence (signal ''heuristic'' 0.1 0.9 ''SAFE'') = Confidence (signal ''bert'' 0.2 0.9 ''SAFE'') \<and>
   DecisionPath (Aggregate insertionSort \<lparr> thresholds = DefaultAggregationThresholds,
       signals = [signal ''heuristic'' 0.1 0.9 ''SAFE'', signal ''bert'' 0.2 0.9 ''SAFE''] \<rparr>)
     = ''TIER_1_HIGH_CONFIDENCE_AGREEMENT'' \<and>
   FinalScore (Aggregate insertionSort \<lparr> thresholds = DefaultAggregationThresholds,
       signals = [signal ''heuristic'' 0.1 0.9 ''SAFE'', signal ''bert'' 0.2 0.9 ''SAFE''] \<rparr>)
     = Score (signal ''heuristic'' 0.1 0.9 ''SAFE'') \<and>
   FinalScore (Aggregate insertionSort \<lparr> thresholds = DefaultAggregationThresholds,
       signals = [signal ''heuristic'' 0.1 0.9 ''SAFE'', signal ''bert'' 0.2 0.9 ''SAFE''] \<rparr>)
     \<noteq> Score (signal ''bert'' 0.2 0.9 ''SAFE'')"
proof -
  let ?h = "signal ''heuristic'' 0.1 0.9 ''SAFE''"
  let ?b = "signal ''bert'' 0.2 0.9 ''SAFE''"
  let ?a = "\<lparr> thresholds = DefaultAggregationThresholds, signals = [?h, ?b] \<rparr>"
  have h1: "tier0_secrets ?a (initial_result ?a) = None"
    by (simp add: tier0_secrets_def secrets_found_def signal_def)
  have h2: "tier0_high_score ?a (initial_result ?a) = None"
    by (simp add: tier0_high_score_def signal_def)
  have srt: "sort_Slice insertionSort (\<lambda>x y. Confidence x > Confidence y) [?h, ?b] = [?h, ?b]"
    by (simp add: sort_Slice_def insertionSort_def signal_def)
  have h3: "filter IsHighConfidence (signals ?a) = [?h, ?b]"
    by (simp add: IsHighConfidence_def signal_def)
  have "tier1 insertionSort ?a (initial_result ?a) =
      Some ((initial_result ?a)\<lparr> FinalScore := Score ?h,
             Action := scoreToAction (Score ?h),
             RiskLevel := scoreToRiskLevel (Score ?h),
             Reason := [Str ''High-confidence '', Str (Source ?h), Str '': '',
                        Str (Label ?h), Str '' ('', Fixed 0 (Confidence ?h * 100), Str ''%)''],
             DecisionPath := ''TIER_1_HIGH_CONFIDENCE_AGREEMENT'' \<rparr>)"
    unfolding tier1_def Let_def h3 srt by (simp add: signal_def)
  then have "FinalScore (Aggregate insertionSort ?a) = Score ?h \<and>
      DecisionPath (Aggregate insertionSort ?a) = ''TIER_1_HIGH_CONFIDENCE_AGREEMENT''"
    unfolding Aggregate_def Let_def h1 h2 by simp
  then show ?thesis
    by (simp add: signal_def)
qed

section \<open>Properties of the benign-pattern discount\<close>

lemma fold_benign_step:
  "fst (fold (benign_step low) ps acc) =
     fst acc + (\<Sum>e\<leftarrow>filter (\<lambda>e. strings_Contains low (strings_ToLower (fst e))) ps. snd e)"
  by (induction ps arbitrary: acc) (simp_all add: benign_step_def)

text \<open>
  Claim C7. For every configuration and text the discount returned by
  \<^verbatim>\<open>ApplyBenignPatternDiscount\<close> is at least -0.65: it is the sum of the weights of the
  benign patterns found in the text, floored at \<^verbatim>\<open>MaxBenignDiscount\<close>; and with no
  benign patterns configured the function returns the discount 0 and no matches.
\<close>

theorem ApplyBenignPatternDiscount_floor:
  "- 0.65 \<le> fst (ApplyBenignPatternDiscount scorerConfig text) \<and>
   fst (ApplyBenignPatternDiscount scorerConfig text) =
     max MaxBenignDiscount
       (\<Sum>e\<leftarrow>filter (\<lambda>e. strings_Contains (strings_ToLower text) (strings_ToLower (fst e)))
              (GetBenignPatterns scorerConfig). snd e) \<and>
   (GetBenignPatterns scorerConfig = [] \<longrightarrow>
      ApplyBenignPatternDiscount scorerConfig text = (0, []))"
  by (simp add: ApplyBenignPatternDiscount_def Let_def fold_benign_step MaxBenignDiscount_def max_def)

theorem ApplyBenignPatternDiscount_floor_witness:
  "fst (ApplyBenignPatternDiscount
          (Some \<lparr> KeywordWeights = [], CryptoPatterns = [], ToolPoisonPatterns = [],
                  BenignPatterns = [(''unit test'', - 0.4), (''Changelog'', - 0.5), (''readme'', - 0.3)] \<rparr>)
          ''Unit Test changelog'') = - 0.65 \<and>
   ApplyBenignPatternDiscount None ''Unit Test changelog'' = (0, [])"
proof -
  let ?cfg = "Some \<lparr> KeywordWeights = [], CryptoPatterns = [], ToolPoisonPatterns = [],
                  BenignPatterns = [(''unit test'', - 0.4), (''Changelog'', - 0.5), (''readme'', - 0.3)] \<rparr>"
  have pats: "GetBenignPatterns ?cfg = [(''unit test'', - 0.4), (''Changelog'', - 0.5), (''readme'', - 0.3)]"
    and none: "GetBenignPatterns None = []"
    by (simp_all add: GetBenignPatterns_def)
  have low: "strings_ToLower ''Unit Test changelog'' = ''unit test changelog''"
    "strings_ToLower ''unit test'' = ''unit test''"
    "strings_ToLower ''Changelog'' = ''changelog''"
    "strings_ToLower ''readme'' = ''readme''"
    by code_simp+
  have m: "strings_Contains ''unit test changelog'' ''unit test''"
    "strings_Contains ''unit test changelog'' ''changelog''"
    "\<not> strings_Contains ''unit test changelog'' ''readme''"
    by simp_all
  from ApplyBenignPatternDiscount_floor [of ?cfg "''Unit Test changelog''"]
    ApplyBenignPatternDiscount_floor [of None "''Unit Test changelog''"]
  show ?thesis
    unfolding pats none by (simp add: low m MaxBenignDiscount_def del: strings_Contains.simps)
qed


section \<open>Properties of the category normalizer\<close>

lemma mapping_values:
  "list_all (\<lambda>e. snd e \<in> set AllTISCategories) internalCategoryMapping"
  by code_simp

lemma categories_fixed:
  "list_all (\<lambda>t. NormalizeCategory t = t) AllTISCategories"
  by code_simp

lemma NormalizeCategory_range: "NormalizeCategory c \<in> set AllTISCategories"
proof (cases "c = ''''")
  case True
  then show ?thesis
    by (simp add: NormalizeCategory_def AllTISCategories_def)
next
  case False
  show ?thesis
  proof (cases "map_of internalCategoryMapping c")
    case None
    with False show ?thesis
      by (simp add: NormalizeCategory_def AllTISCategories_def)
  next
    case (Some t)
    then have "(c, t) \<in> set internalCategoryMapping"
      by (rule map_of_SomeD)
    with mapping_values have "t \<in> set AllTISCategories"
      unfolding list_all_iff by fastforce
    with False Some show ?thesis
      by (simp add: NormalizeCategory_def)
  qed
qed

text \<open>
  Claim C8. \<^verbatim>\<open>NormalizeCategory\<close> is idempotent: normalising the string of a category
  it returned gives that category again.
\<close>

theorem NormalizeCategory_idempotent:
  "NormalizeCategory (NormalizeCategory c) = NormalizeCategory c"
  using NormalizeCategory_range [of c] categories_fixed
  unfolding list_all_iff by blast

theorem NormalizeCategory_idempotent_witness:
  "NormalizeCategory ''unknown_jailbreak_attack'' = ''jailbreak'' \<and>
   NormalizeCategory (NormalizeCategory ''unknown_jailbreak_attack'') = ''jailbreak''"
proof -
  have "NormalizeCategory ''unknown_jailbreak_attack'' = ''jailbreak''"
    by code_simp
  with NormalizeCategory_idempotent [of "''unknown_jailbreak_attack''"] show ?thesis
    by simp
qed

section \<open>Properties of the gzip decoder\<close>

text \<open>
  Claim C9. Whatever the input, and whatever the Base64 decoder and the inflater return,
  \<^verbatim>\<open>TryGzipDecompress\<close> returns at most 1 MiB (1024 * 1024 bytes).
\<close>

theorem TryGzipDecompress_capped:
  "length (TryGzipDecompress decodeBase64 gunzip text) \<le> 1024 * 1024"
  by (simp add: TryGzipDecompress_def maxGzipOutput_def split: option.splits)

theorem TryGzipDecompress_capped_witness:
  "TryGzipDecompress Some Some ''H4sIAAAAAAAAA0tUKC4pysxLBwBPcpYECgAAAA=='' =
     ''H4sIAAAAAAAAA0tUKC4pysxLBwBPcpYECgAAAA=='' \<and>
   length (TryGzipDecompress Some Some ''H4sIAAAAAAAAA0tUKC4pysxLBwBPcpYECgAAAA=='') \<le> 1024 * 1024"
  using TryGzipDecompress_capped [of Some Some "''H4sIAAAAAAAAA0tUKC4pysxLBwBPcpYECgAAAA==''"]
  by (simp add: TryGzipDecompress_def maxGzipOutput_def)

end
